theory Spec2Isabelle
  imports Complex_Main "HOL-Library.Word"
begin

unbundle bit_operations_syntax

section \<open>Values exchanged with the platform\<close>

text \<open>
  The streaming client is the Swift code of the iOS sample: \<^verbatim>\<open>AudioRecorder\<close>,
  \<^verbatim>\<open>AudioStreamClient\<close>, \<^verbatim>\<open>AudioPlayback\<close>, \<^verbatim>\<open>UnityBridge\<close> and the two buttons of
  \<^verbatim>\<open>ContentView\<close>. Every method becomes a function from the object's state to its new
  state. What the operating system decides (whether an engine starts, what the converter
  returns, how bytes decode as JSON) is an argument of the function, so that every
  theorem holds for any behaviour of the platform.

  \<^verbatim>\<open>Data\<close> is a list of bytes, \<^verbatim>\<open>String\<close> a \<open>string\<close>, \<^verbatim>\<open>Double\<close> a \<open>real\<close>: the client
  stores and passes on the one \<^verbatim>\<open>Double\<close> it handles and computes nothing with it. Frame
  counts (\<^verbatim>\<open>AVAudioFrameCount\<close>, a \<^verbatim>\<open>UInt32\<close>) are \<open>nat\<close>: the type holds the frame count
  of every buffer shorter than 8 GiB.
\<close>

type_synonym bytes = "8 word list"
type_synonym int16 = "16 word"

text \<open>The value \<^verbatim>\<open>JSONSerialization\<close> reads and writes; an object is \<^verbatim>\<open>[String: Any]\<close>.\<close>

datatype json =
    JNull
  | JBool bool
  | JNumber real
  | JString string
  | JArray "json list"
  | JObject "(string \<times> json) list"

text \<open>The conditional casts \<^verbatim>\<open>as? [String: Any]\<close> and \<^verbatim>\<open>as? String\<close>.\<close>

fun asDictionary :: "json \<Rightarrow> (string \<times> json) list option" where
  "asDictionary (JObject kvs) = Some kvs"
| "asDictionary _ = None"

fun asString :: "json \<Rightarrow> string option" where
  "asString (JString t) = Some t"
| "asString _ = None"

text \<open>\<^verbatim>\<open>payload[key] as? String\<close>.\<close>

definition stringAt :: "(string \<times> json) list \<Rightarrow> string \<Rightarrow> string option" where
  "stringAt payload key = (case map_of payload key of None \<Rightarrow> None | Some v \<Rightarrow> asString v)"

text \<open>
  The codecs of Foundation, taken as given: \<open>jsonObject\<close> is
  \<^verbatim>\<open>try? JSONSerialization.jsonObject(with:)\<close>, \<open>jsonText\<close> is
  \<^verbatim>\<open>try? JSONSerialization.data(withJSONObject:)\<close> followed by \<^verbatim>\<open>String(data:encoding:)\<close>,
  \<open>utf8Data\<close> is \<^verbatim>\<open>text.data(using: .utf8)\<close>, \<open>base64Decoded\<close> is \<^verbatim>\<open>Data(base64Encoded:)\<close>
  and \<open>pcmBufferAvailable n\<close> tells whether \<^verbatim>\<open>AVAudioPCMBuffer(pcmFormat:frameCapacity:)\<close>
  returns a buffer of capacity \<open>n\<close>. \<open>asDouble\<close> is the cast \<^verbatim>\<open>as? Double\<close> of a decoded
  value: which values it accepts (a number that a \<^verbatim>\<open>Double\<close> holds exactly, a boolean) is
  decided by the way Foundation bridges numbers, so the cast is taken as given too.
  \<open>None\<close> stands for \<^verbatim>\<open>nil\<close>.
\<close>

record platform =
  jsonObject :: "bytes \<Rightarrow> json option"
  jsonText :: "json \<Rightarrow> string option"
  utf8Data :: "string \<Rightarrow> bytes option"
  base64Decoded :: "string \<Rightarrow> bytes option"
  pcmBufferAvailable :: "nat \<Rightarrow> bool"
  asDouble :: "json \<Rightarrow> real option"

text \<open>\<^verbatim>\<open>payload[key] as? Double\<close>.\<close>

definition doubleAt :: "platform \<Rightarrow> (string \<times> json) list \<Rightarrow> string \<Rightarrow> real option" where
  "doubleAt pf payload key =
     (case map_of payload key of None \<Rightarrow> None | Some v \<Rightarrow> asDouble pf v)"

section \<open>Audio formats and buffers\<close>

datatype common_format = PcmFormatFloat32 | PcmFormatFloat64 | PcmFormatInt16 | PcmFormatInt32

record audio_format =
  commonFormat :: common_format
  sampleRate :: nat
  channels :: nat
  interleaved :: bool

text \<open>The format both \<^verbatim>\<open>AudioRecorder.targetFormat\<close> and \<^verbatim>\<open>AudioPlayback.format\<close> ask for.\<close>

definition pcm16Mono16k :: audio_format where
  "pcm16Mono16k =
     \<lparr>commonFormat = PcmFormatInt16, sampleRate = 16000, channels = 1, interleaved = False\<rparr>"

text \<open>
  An \<^verbatim>\<open>AVAudioPCMBuffer\<close>: \<open>channel0\<close> is the memory of its first channel, one entry per
  frame of capacity, and \<open>frameLength\<close> says how many of them are valid.
\<close>

record pcm_buffer =
  bufferFormat :: audio_format
  frameCapacity :: nat
  frameLength :: nat
  channel0 :: "int16 list"

definition newPcmBuffer :: "platform \<Rightarrow> audio_format \<Rightarrow> nat \<Rightarrow> pcm_buffer option" where
  "newPcmBuffer pf fmt capacity =
     (if pcmBufferAvailable pf capacity
      then Some \<lparr>bufferFormat = fmt, frameCapacity = capacity, frameLength = 0,
                 channel0 = replicate capacity 0\<rparr>
      else None)"

text \<open>\<^verbatim>\<open>int16ChannelData\<close> is \<^verbatim>\<open>nil\<close> unless the buffer holds 16-bit integers.\<close>

definition int16ChannelData :: "pcm_buffer \<Rightarrow> int16 list option" where
  "int16ChannelData b =
     (if commonFormat (bufferFormat b) = PcmFormatInt16 then Some (channel0 b) else None)"

text \<open>
  Reading bytes as \<^verbatim>\<open>Int16\<close> in memory order (\<^verbatim>\<open>bindMemory(to: Int16.self)\<close> on a
  little-endian machine), and writing them back (\<^verbatim>\<open>Data(bytes:count:)\<close>). A last byte
  without a partner belongs to no sample.
\<close>

fun int16s :: "bytes \<Rightarrow> int16 list" where
  "int16s (lo # hi # rest) = (ucast lo OR push_bit 8 (ucast hi)) # int16s rest"
| "int16s _ = []"

fun pcm16Bytes :: "int16 list \<Rightarrow> bytes" where
  "pcm16Bytes [] = []"
| "pcm16Bytes (w # ws) = ucast w # ucast (drop_bit 8 w) # pcm16Bytes ws"

text \<open>\<^verbatim>\<open>baseAddress\<close> of the bound bytes: \<^verbatim>\<open>nil\<close> for an empty \<^verbatim>\<open>Data\<close>.\<close>

definition baseAddress :: "bytes \<Rightarrow> int16 list option" where
  "baseAddress d = (if d = [] then None else Some (int16s d))"

text \<open>\<^verbatim>\<open>channel[0].assign(from: base, count: n)\<close> overwrites the first \<open>n\<close> frames.\<close>

definition assign :: "int16 list \<Rightarrow> nat \<Rightarrow> pcm_buffer \<Rightarrow> pcm_buffer" where
  "assign base n b = b\<lparr>channel0 := take n base @ drop n (channel0 b)\<rparr>"

text \<open>
  An \<^verbatim>\<open>AVAudioEngine\<close>, as far as the client can tell: whether it runs and whether a tap
  sits on bus 0 of its input node. An \<^verbatim>\<open>AVAudioPlayerNode\<close>: whether it plays and the
  buffers scheduled on it and not yet discarded; \<^verbatim>\<open>stop()\<close> discards them.
\<close>

record audio_engine =
  isRunning :: bool
  inputTapInstalled :: bool

record player_node =
  isPlaying :: bool
  scheduledBuffers :: "pcm_buffer list"

definition scheduleBuffer :: "pcm_buffer \<Rightarrow> player_node \<Rightarrow> player_node" where
  "scheduleBuffer b n = n\<lparr>scheduledBuffers := scheduledBuffers n @ [b]\<rparr>"

definition playerStop :: "player_node \<Rightarrow> player_node" where
  "playerStop n = n\<lparr>isPlaying := False, scheduledBuffers := []\<rparr>"

section \<open>AudioPlayback\<close>

record audio_playback =
  playbackEngine :: audio_engine
  player :: player_node
  playbackFormat :: "audio_format option"
  started :: bool

definition newAudioPlayback :: audio_playback where
  "newAudioPlayback =
     \<lparr>playbackEngine = \<lparr>isRunning = False, inputTapInstalled = False\<rparr>,
      player = \<lparr>isPlaying = False, scheduledBuffers = []\<rparr>,
      playbackFormat = Some pcm16Mono16k,
      started = False\<rparr>"

text \<open>
  \<^verbatim>\<open>start() throws\<close>: the first component is the error thrown by \<^verbatim>\<open>engine.start()\<close>, if
  any; \<open>engineError\<close> is what the engine answers when asked to start.
\<close>

definition playbackStart :: "string option \<Rightarrow> audio_playback \<Rightarrow> string option \<times> audio_playback" where
  "playbackStart engineError p =
     (if started p then (None, p)
      else if isRunning (playbackEngine p) then (None, p)
      else case engineError of
             Some e \<Rightarrow> (Some e, p)
           | None \<Rightarrow>
               (None, p\<lparr>playbackEngine := (playbackEngine p)\<lparr>isRunning := True\<rparr>,
                         player := (player p)\<lparr>isPlaying := True\<rparr>,
                         started := True\<rparr>))"

definition playbackStop :: "audio_playback \<Rightarrow> audio_playback" where
  "playbackStop p =
     p\<lparr>player := playerStop (player p),
       playbackEngine := (playbackEngine p)\<lparr>isRunning := False\<rparr>,
       started := False\<rparr>"

definition enqueuePcm :: "platform \<Rightarrow> bytes \<Rightarrow> audio_playback \<Rightarrow> audio_playback" where
  "enqueuePcm pf d p =
     (case playbackFormat p of
        None \<Rightarrow> p
      | Some fmt \<Rightarrow>
          (let frameCount = length d div 2 in
           case newPcmBuffer pf fmt frameCount of
             None \<Rightarrow> p
           | Some buffer0 \<Rightarrow>
               (let buffer = buffer0\<lparr>frameLength := frameCount\<rparr> in
                case int16ChannelData buffer of
                  None \<Rightarrow> p
                | Some channel \<Rightarrow>
                    (let filled = (case baseAddress d of
                                     None \<Rightarrow> buffer
                                   | Some base \<Rightarrow> assign base frameCount buffer)
                     in p\<lparr>player := scheduleBuffer filled (player p)\<rparr>))))"

section \<open>AudioRecorder\<close>

datatype audio_converter = AudioConverter audio_format audio_format

text \<open>The one closure the client ever installs: \<^verbatim>\<open>{ data in self.sendBinary(data) }\<close>.\<close>

datatype pcm_callback = SendBinaryCallback

record audio_recorder =
  recorderEngine :: audio_engine
  converter :: "audio_converter option"
  onPcmData :: "pcm_callback option"
  targetFormat :: "audio_format option"

definition newAudioRecorder :: audio_recorder where
  "newAudioRecorder =
     \<lparr>recorderEngine = \<lparr>isRunning = False, inputTapInstalled = False\<rparr>,
      converter = None,
      onPcmData = None,
      targetFormat = Some pcm16Mono16k\<rparr>"

text \<open>
  What the device answers when capture starts: the format of the input node, whether
  \<^verbatim>\<open>AVAudioConverter(from:to:)\<close> returns a converter, and the error of \<^verbatim>\<open>engine.start()\<close>.
\<close>

record capture_env =
  inputFormat :: audio_format
  converterAvailable :: bool
  recorderEngineError :: "string option"

definition recorderStart ::
  "capture_env \<Rightarrow> pcm_callback \<Rightarrow> audio_recorder \<Rightarrow> string option \<times> audio_recorder" where
  "recorderStart env cb r =
     (let r1 = r\<lparr>onPcmData := Some cb\<rparr> in
      case targetFormat r1 of
        None \<Rightarrow> (Some ''Invalid target format'', r1)
      | Some tf \<Rightarrow>
          (let r2 = r1\<lparr>converter := (if converterAvailable env
                                       then Some (AudioConverter (inputFormat env) tf)
                                       else None)\<rparr>;
               r3 = r2\<lparr>recorderEngine := (recorderEngine r2)\<lparr>inputTapInstalled := True\<rparr>\<rparr>
           in case recorderEngineError env of
                Some e \<Rightarrow> (Some e, r3)
              | None \<Rightarrow> (None, r3\<lparr>recorderEngine := (recorderEngine r3)\<lparr>isRunning := True\<rparr>\<rparr>)))"

definition recorderStop :: "audio_recorder \<Rightarrow> audio_recorder" where
  "recorderStop r =
     r\<lparr>recorderEngine := \<lparr>isRunning = False, inputTapInstalled = False\<rparr>,
       onPcmData := None,
       converter := None\<rparr>"

text \<open>
  What the platform does with one tapped buffer: whether the output buffer could be
  allocated, the status and the error \<^verbatim>\<open>converter.convert\<close> returns, and the frames it
  wrote (\<open>frameLength\<close> is their number).
\<close>

datatype converter_status = HaveData | InputRanDry | EndOfStream | StatusError

record conversion =
  outputAllocated :: bool
  outStatus :: converter_status
  outError :: "string option"
  outFrames :: "int16 list"

text \<open>\<open>handleBuffer\<close> returns the call it makes to the callback, if it makes one.\<close>

definition handleBuffer :: "conversion \<Rightarrow> audio_recorder \<Rightarrow> (pcm_callback \<times> bytes) option" where
  "handleBuffer cv r =
     (case converter r of
        None \<Rightarrow> None
      | Some c \<Rightarrow>
          (case targetFormat r of
             None \<Rightarrow> None
           | Some tf \<Rightarrow>
               if \<not> outputAllocated cv then None
               else if outStatus cv = StatusError \<or> outError cv \<noteq> None then None
               else if commonFormat tf \<noteq> PcmFormatInt16 then None
               else (let frameLen = length (outFrames cv);
                         byteCount = frameLen * 2;
                         d = take byteCount (pcm16Bytes (outFrames cv))
                     in case onPcmData r of
                          None \<Rightarrow> None
                        | Some cb \<Rightarrow> Some (cb, d))))"

section \<open>UnityBridge\<close>

text \<open>
  The bridge to the renderer. \<open>visemeCalls\<close> lists the arguments \<^verbatim>\<open>updateViseme\<close> has
  been called with, in the order of the calls; \<open>sentToUnity\<close> is what has reached the
  renderer. \<^verbatim>\<open>updateViseme\<close> is a stub: it evaluates its argument and sends nothing.
\<close>

record unity_bridge =
  visemeCalls :: "real list"
  sentToUnity :: "real list"

definition updateViseme :: "real \<Rightarrow> unity_bridge \<Rightarrow> unity_bridge" where
  "updateViseme v b = b\<lparr>visemeCalls := visemeCalls b @ [v]\<rparr>"

section \<open>AudioStreamClient\<close>

datatype ws_message = WsString string | WsData bytes

datatype ws_task = WebSocketTask string

text \<open>The calls made on \<^verbatim>\<open>URLSessionWebSocketTask\<close> objects, in the order they are made.\<close>

datatype ws_call = TaskResume string | TaskCancel | TaskSend ws_message | TaskReceive

text \<open>\<^verbatim>\<open>AVAudioSession.sharedInstance()\<close>.\<close>

record audio_session =
  categorySet :: bool
  sessionActive :: bool

text \<open>
  The published fields and private members of the client, then the platform objects it
  acts on: \<open>wire\<close> collects the calls on its socket tasks, \<open>console\<close> the lines written
  to the log (the client has no statement that writes one).
\<close>

record client =
  status :: string
  transcript :: string
  assistantText :: string
  isConnected :: bool
  isRecording :: bool
  visemeValue :: real
  task :: "ws_task option"
  recorder :: audio_recorder
  playback :: audio_playback
  wire :: "ws_call list"
  audioSession :: audio_session
  unity :: unity_bridge
  console :: "string list"

definition newClient :: client where
  "newClient =
     \<lparr>status = ''Disconnected'', transcript = [], assistantText = [],
      isConnected = False, isRecording = False, visemeValue = 0,
      task = None, recorder = newAudioRecorder, playback = newAudioPlayback,
      wire = [], audioSession = \<lparr>categorySet = False, sessionActive = False\<rparr>,
      unity = \<lparr>visemeCalls = [], sentToUnity = []\<rparr>, console = []\<rparr>"

text \<open>What the audio hardware answers during \<^verbatim>\<open>startRecording\<close>.\<close>

record audio_env =
  setCategoryError :: "string option"
  setActiveError :: "string option"
  playbackEngineError :: "string option"
  capture :: capture_env

definition sendJson :: "platform \<Rightarrow> json \<Rightarrow> client \<Rightarrow> client" where
  "sendJson pf payload s =
     (case jsonText pf payload of
        None \<Rightarrow> s
      | Some text \<Rightarrow> s\<lparr>wire := wire s @ [TaskSend (WsString text)]\<rparr>)"

definition sendBinary :: "bytes \<Rightarrow> client \<Rightarrow> client" where
  "sendBinary d s =
     (case task s of
        None \<Rightarrow> s
      | Some t \<Rightarrow> s\<lparr>wire := wire s @ [TaskSend (WsData d)]\<rparr>)"


definition listen :: "client \<Rightarrow> client" where
  "listen s =
     (case task s of
        None \<Rightarrow> s
      | Some t \<Rightarrow> s\<lparr>wire := wire s @ [TaskReceive]\<rparr>)"

definition configureAudioSession :: "audio_env \<Rightarrow> client \<Rightarrow> client" where
  "configureAudioSession env s =
     (case setCategoryError env of
        Some e \<Rightarrow> s\<lparr>status := ''Audio session error: '' @ e\<rparr>
      | None \<Rightarrow>
          (let s1 = s\<lparr>audioSession := (audioSession s)\<lparr>categorySet := True\<rparr>\<rparr> in
           case setActiveError env of
             Some e \<Rightarrow> s1\<lparr>status := ''Audio session error: '' @ e\<rparr>
           | None \<Rightarrow> s1\<lparr>audioSession := (audioSession s1)\<lparr>sessionActive := True\<rparr>\<rparr>))"

definition audioStartPayload :: "string \<Rightarrow> string option \<Rightarrow> json" where
  "audioStartPayload projectId avatarId =
     JObject [(''type'', JString ''audio.start''),
              (''projectId'', JString projectId),
              (''avatarId'', (case avatarId of None \<Rightarrow> JNull | Some a \<Rightarrow> JString a)),
              (''format'', JString ''pcm16''),
              (''sampleRate'', JNumber 16000),
              (''channels'', JNumber 1)]"

definition audioStopPayload :: json where
  "audioStopPayload = JObject [(''type'', JString ''audio.stop'')]"

definition startRecording :: "platform \<Rightarrow> audio_env \<Rightarrow> string \<Rightarrow> string option \<Rightarrow> client \<Rightarrow> client" where
  "startRecording pf env projectId avatarId s =
     (case task s of
        None \<Rightarrow> s
      | Some t \<Rightarrow>
          (let s1 = s\<lparr>assistantText := [], transcript := []\<rparr>;
               s2 = configureAudioSession env s1;
               s3 = sendJson pf (audioStartPayload projectId avatarId) s2
           in case playbackStart (playbackEngineError env) (playback s3) of
                (Some e, pb) \<Rightarrow> s3\<lparr>playback := pb, status := ''Audio start failed: '' @ e\<rparr>
              | (None, pb) \<Rightarrow>
                  (case recorderStart (capture env) SendBinaryCallback (recorder s3) of
                     (Some e, rc) \<Rightarrow>
                       s3\<lparr>playback := pb, recorder := rc,
                          status := ''Audio start failed: '' @ e\<rparr>
                   | (None, rc) \<Rightarrow>
                       s3\<lparr>playback := pb, recorder := rc,
                          isRecording := True, status := ''Recording''\<rparr>)))"

definition stopRecording :: "platform \<Rightarrow> client \<Rightarrow> client" where
  "stopRecording pf s =
     (case task s of
        None \<Rightarrow> s
      | Some t \<Rightarrow>
          if \<not> isRecording s then s
          else (let s1 = s\<lparr>recorder := recorderStop (recorder s)\<rparr>;
                    s2 = s1\<lparr>playback := playbackStop (playback s1)\<rparr>;
                    s3 = sendJson pf audioStopPayload s2
                in s3\<lparr>isRecording := False, status := ''Processing''\<rparr>))"

definition disconnect :: "platform \<Rightarrow> client \<Rightarrow> client" where
  "disconnect pf s =
     (let s1 = stopRecording pf s;
          s2 = (case task s1 of
                  None \<Rightarrow> s1
                | Some t \<Rightarrow> s1\<lparr>wire := wire s1 @ [TaskCancel]\<rparr>)
      in s2\<lparr>task := None, isConnected := False, status := ''Disconnected''\<rparr>)"

definition connect :: "platform \<Rightarrow> string \<Rightarrow> client \<Rightarrow> client" where
  "connect pf url s =
     (let s1 = disconnect pf s;
          s2 = s1\<lparr>task := Some (WebSocketTask url)\<rparr>;
          s3 = s2\<lparr>wire := wire s2 @ [TaskResume url]\<rparr>;
          s4 = s3\<lparr>isConnected := True, status := ''Connected''\<rparr>
      in listen s4)"

definition handleJson :: "platform \<Rightarrow> bytes \<Rightarrow> client \<Rightarrow> client" where
  "handleJson pf d s =
     (case jsonObject pf d of
        None \<Rightarrow> s
      | Some j \<Rightarrow>
     (case asDictionary j of
        None \<Rightarrow> s
      | Some payload \<Rightarrow>
     (case stringAt payload ''type'' of
        None \<Rightarrow> s
      | Some ty \<Rightarrow>
          if ty = ''asr.final'' then
            s\<lparr>transcript := (case stringAt payload ''text'' of
                                Some t \<Rightarrow> t | None \<Rightarrow> transcript s),
              status := ''ASR done''\<rparr>
          else if ty = ''assistant.delta'' then
            s\<lparr>assistantText :=
                 assistantText s @ (case stringAt payload ''text'' of
                                      Some t \<Rightarrow> t | None \<Rightarrow> [])\<rparr>
          else if ty = ''assistant.done'' then s\<lparr>status := ''Reply done''\<rparr>
          else if ty = ''tts.start'' then s\<lparr>status := ''Speaking''\<rparr>
          else if ty = ''tts.audio'' then
            (case stringAt payload ''data'' of
               None \<Rightarrow> s
             | Some base64 \<Rightarrow>
                 (case base64Decoded pf base64 of
                    None \<Rightarrow> s
                  | Some audioData \<Rightarrow> s\<lparr>playback := enqueuePcm pf audioData (playback s)\<rparr>))
          else if ty = ''viseme'' then
            (case doubleAt pf payload ''value'' of
               None \<Rightarrow> s
             | Some v \<Rightarrow> s\<lparr>visemeValue := v, unity := updateViseme v (unity s)\<rparr>)
          else if ty = ''tts.done'' then s\<lparr>status := ''Idle''\<rparr>
          else if ty = ''error'' then
            s\<lparr>status := (case stringAt payload ''message'' of
                            Some m \<Rightarrow> m | None \<Rightarrow> ''Error'')\<rparr>
          else s)))"

definition handleMessage :: "platform \<Rightarrow> ws_message \<Rightarrow> client \<Rightarrow> client" where
  "handleMessage pf m s =
     (case m of
        WsString text \<Rightarrow>
          (case utf8Data pf text of
             None \<Rightarrow> s
           | Some d \<Rightarrow> handleJson pf d s)
      | WsData d \<Rightarrow> handleJson pf d s)"

text \<open>The completion handler of \<^verbatim>\<open>receive\<close>, run with the result of the receive.\<close>

datatype receive_result = Failure string | Success ws_message

definition receiveCompletion :: "platform \<Rightarrow> receive_result \<Rightarrow> client \<Rightarrow> client" where
  "receiveCompletion pf res s =
     (case res of
        Failure e \<Rightarrow> s\<lparr>status := ''WS error: '' @ e, isConnected := False\<rparr>
      | Success m \<Rightarrow> listen (handleMessage pf m s))"

text \<open>
  The tap block installed by \<^verbatim>\<open>AudioRecorder.start\<close>. The engine calls it with each
  captured buffer while the tap is installed and the engine runs; the block calls
  \<^verbatim>\<open>handleBuffer\<close>, which may call the closure given by the client.
\<close>

definition tapBlock :: "conversion \<Rightarrow> client \<Rightarrow> client" where
  "tapBlock cv s =
     (if inputTapInstalled (recorderEngine (recorder s)) \<and> isRunning (recorderEngine (recorder s))
      then (case handleBuffer cv (recorder s) of
              None \<Rightarrow> s
            | Some (SendBinaryCallback, d) \<Rightarrow> sendBinary d s)
      else s)"

text \<open>Inbound messages and captured buffers, one after the other.\<close>

fun receiveAll :: "platform \<Rightarrow> ws_message list \<Rightarrow> client \<Rightarrow> client" where
  "receiveAll pf [] s = s"
| "receiveAll pf (m # ms) s = receiveAll pf ms (receiveCompletion pf (Success m) s)"

fun tapAll :: "conversion list \<Rightarrow> client \<Rightarrow> client" where
  "tapAll [] s = s"
| "tapAll (cv # cvs) s = tapAll cvs (tapBlock cv s)"

fun enqueueAll :: "platform \<Rightarrow> bytes list \<Rightarrow> audio_playback \<Rightarrow> audio_playback" where
  "enqueueAll pf [] p = p"
| "enqueueAll pf (d # ds) p = enqueueAll pf ds (enqueuePcm pf d p)"

section \<open>ContentView\<close>




section \<open>Reading an inbound message\<close>

text \<open>
  The type tag and the dictionary \<^verbatim>\<open>handleJson\<close> switches on: the bytes of the message
  (the UTF-8 bytes of a text message), decoded as JSON, cast to a dictionary, with a
  string under the key \<^verbatim>\<open>type\<close>. These are the three guards of \<^verbatim>\<open>handleMessage\<close> and
  \<^verbatim>\<open>handleJson\<close>; a message that fails one of them is malformed.
\<close>

definition messageBytes :: "platform \<Rightarrow> ws_message \<Rightarrow> bytes option" where
  "messageBytes pf m = (case m of WsString text \<Rightarrow> utf8Data pf text | WsData d \<Rightarrow> Some d)"

definition taggedPayload :: "platform \<Rightarrow> bytes \<Rightarrow> (string \<times> (string \<times> json) list) option" where
  "taggedPayload pf d =
     (case jsonObject pf d of
        None \<Rightarrow> None
      | Some j \<Rightarrow>
          (case asDictionary j of
             None \<Rightarrow> None
           | Some payload \<Rightarrow>
               (case stringAt payload ''type'' of
                  None \<Rightarrow> None
                | Some ty \<Rightarrow> Some (ty, payload))))"

definition malformed :: "platform \<Rightarrow> ws_message \<Rightarrow> bool" where
  "malformed pf m =
     (case messageBytes pf m of
        None \<Rightarrow> True
      | Some d \<Rightarrow> taggedPayload pf d = None)"

text \<open>
  The \<^verbatim>\<open>text\<close> field of an \<^verbatim>\<open>assistant.delta\<close> message, empty when the field is missing or
  is not a string; empty also for every message that is not an \<^verbatim>\<open>assistant.delta\<close>.
\<close>

definition deltaText :: "platform \<Rightarrow> ws_message \<Rightarrow> string" where
  "deltaText pf m =
     (case messageBytes pf m of
        None \<Rightarrow> []
      | Some d \<Rightarrow>
          (case taggedPayload pf d of
             None \<Rightarrow> []
           | Some (ty, payload) \<Rightarrow>
               if ty = ''assistant.delta''
               then (case stringAt payload ''text'' of Some t \<Rightarrow> t | None \<Rightarrow> [])
               else []))"

section \<open>A platform and a session to run the client on\<close>

text \<open>
  A decoder that knows seven messages, a serialiser that writes the type tag of an
  object, a base64 decoder that knows one string, a cast to \<^verbatim>\<open>Double\<close> that accepts numbers
  and booleans, and hardware that never fails.
\<close>

definition fixtureJsonObject :: "bytes \<Rightarrow> json option" where
  "fixtureJsonObject d =
     (if d = [1] then
        Some (JObject [(''type'', JString ''viseme''), (''value'', JNumber (14 / 10))])
      else if d = [2] then
        Some (JObject [(''type'', JString ''assistant.delta''), (''text'', JString ''Hel'')])
      else if d = [3] then
        Some (JObject [(''type'', JString ''assistant.delta''), (''text'', JString ''lo'')])
      else if d = [4] then Some (JArray [])
      else if d = [5] then Some (JObject [(''text'', JString ''no tag'')])
      else if d = [6] then
        Some (JObject [(''type'', JString ''tts.audio''), (''data'', JString ''AAEC'')])
      else if d = [7] then
        Some (JObject [(''type'', JString ''viseme''), (''value'', JString ''wide'')])
      else None)"

definition fixtureJsonText :: "json \<Rightarrow> string option" where
  "fixtureJsonText j =
     (case asDictionary j of None \<Rightarrow> None | Some kvs \<Rightarrow> stringAt kvs ''type'')"

definition fixtureUtf8 :: "string \<Rightarrow> bytes option" where
  "fixtureUtf8 t = Some (map of_char t)"

definition fixtureBase64 :: "string \<Rightarrow> bytes option" where
  "fixtureBase64 t = (if t = ''AAEC'' then Some [0, 1, 2] else None)"

definition fixtureBuffers :: "nat \<Rightarrow> bool" where
  "fixtureBuffers n = True"

fun fixtureAsDouble :: "json \<Rightarrow> real option" where
  "fixtureAsDouble (JNumber v) = Some v"
| "fixtureAsDouble (JBool b) = Some (if b then 1 else 0)"
| "fixtureAsDouble _ = None"

definition fixturePlatform :: platform where
  "fixturePlatform =
     \<lparr>jsonObject = fixtureJsonObject, jsonText = fixtureJsonText, utf8Data = fixtureUtf8,
      base64Decoded = fixtureBase64, pcmBufferAvailable = fixtureBuffers,
      asDouble = fixtureAsDouble\<rparr>"

definition float32Mono48k :: audio_format where
  "float32Mono48k =
     \<lparr>commonFormat = PcmFormatFloat32, sampleRate = 48000, channels = 1, interleaved = False\<rparr>"

definition fixtureEnv :: audio_env where
  "fixtureEnv =
     \<lparr>setCategoryError = None, setActiveError = None, playbackEngineError = None,
      capture = \<lparr>inputFormat = float32Mono48k, converterAvailable = True,
                 recorderEngineError = None\<rparr>\<rparr>"

text \<open>The same hardware, except that the engine of the recorder refuses to start.\<close>

definition microphoneBusyEnv :: audio_env where
  "microphoneBusyEnv =
     \<lparr>setCategoryError = None, setActiveError = None, playbackEngineError = None,
      capture = \<lparr>inputFormat = float32Mono48k, converterAvailable = True,
                 recorderEngineError = Some ''input busy''\<rparr>\<rparr>"

text \<open>A client that has connected, and one that has connected and started to record.\<close>

definition connectedClient :: client where
  "connectedClient = connect fixturePlatform ''ws://host/ws/audio'' newClient"

definition streamingClient :: client where
  "streamingClient = startRecording fixturePlatform fixtureEnv ''p1'' None connectedClient"


text \<open>The recording client after \<^verbatim>\<open>stopRecording\<close>.\<close>

definition processingClient :: client where
  "processingClient = stopRecording fixturePlatform streamingClient"

text \<open>
  A client whose \<^verbatim>\<open>startRecording\<close> failed half-way: the playback started, then the engine
  of the recorder refused to start.
\<close>

definition failedStartClient :: client where
  "failedStartClient = startRecording fixturePlatform microphoneBusyEnv ''p1'' None connectedClient"

text \<open>A conversion that yields two frames, and one that the converter rejects.\<close>

definition goodConversion :: conversion where
  "goodConversion =
     \<lparr>outputAllocated = True, outStatus = HaveData, outError = None, outFrames = [1, 2]\<rparr>"

definition failedConversion :: conversion where
  "failedConversion =
     \<lparr>outputAllocated = True, outStatus = StatusError, outError = Some ''bad format'',
      outFrames = []\<rparr>"

section \<open>Evaluating the sample session\<close>

lemmas platform_simps = fixturePlatform_def fixtureJsonText_def fixtureJsonObject_def
  fixtureUtf8_def fixtureBase64_def fixtureBuffers_def stringAt_def doubleAt_def

lemma connectedClient_value:
  "connectedClient =
     \<lparr>status = ''Connected'', transcript = [], assistantText = [],
      isConnected = True, isRecording = False, visemeValue = 0,
      task = Some (WebSocketTask ''ws://host/ws/audio''),
      recorder = newAudioRecorder, playback = newAudioPlayback,
      wire = [TaskResume ''ws://host/ws/audio'', TaskReceive],
      audioSession = \<lparr>categorySet = False, sessionActive = False\<rparr>,
      unity = \<lparr>visemeCalls = [], sentToUnity = []\<rparr>, console = []\<rparr>"
  by (simp add: connectedClient_def newClient_def connect_def disconnect_def
      stopRecording_def listen_def Let_def)

lemma streamingClient_value:
  "streamingClient =
     \<lparr>status = ''Recording'', transcript = [], assistantText = [],
      isConnected = True, isRecording = True, visemeValue = 0,
      task = Some (WebSocketTask ''ws://host/ws/audio''),
      recorder =
        \<lparr>recorderEngine = \<lparr>isRunning = True, inputTapInstalled = True\<rparr>,
         converter = Some (AudioConverter float32Mono48k pcm16Mono16k),
         onPcmData = Some SendBinaryCallback,
         targetFormat = Some pcm16Mono16k\<rparr>,
      playback =
        \<lparr>playbackEngine = \<lparr>isRunning = True, inputTapInstalled = False\<rparr>,
         player = \<lparr>isPlaying = True, scheduledBuffers = []\<rparr>,
         playbackFormat = Some pcm16Mono16k,
         started = True\<rparr>,
      wire = [TaskResume ''ws://host/ws/audio'', TaskReceive,
              TaskSend (WsString ''audio.start'')],
      audioSession = \<lparr>categorySet = True, sessionActive = True\<rparr>,
      unity = \<lparr>visemeCalls = [], sentToUnity = []\<rparr>, console = []\<rparr>"
  by (simp add: streamingClient_def connectedClient_value startRecording_def
      configureAudioSession_def sendJson_def audioStartPayload_def playbackStart_def
      recorderStart_def newAudioPlayback_def newAudioRecorder_def fixtureEnv_def
      platform_simps Let_def)

text \<open>The session after \<^verbatim>\<open>stopRecording\<close>: the status reads \<^verbatim>\<open>Processing\<close>.\<close>

lemma processingClient_value:
  "processingClient =
     \<lparr>status = ''Processing'', transcript = [], assistantText = [],
      isConnected = True, isRecording = False, visemeValue = 0,
      task = Some (WebSocketTask ''ws://host/ws/audio''),
      recorder =
        \<lparr>recorderEngine = \<lparr>isRunning = False, inputTapInstalled = False\<rparr>,
         converter = None, onPcmData = None, targetFormat = Some pcm16Mono16k\<rparr>,
      playback =
        \<lparr>playbackEngine = \<lparr>isRunning = False, inputTapInstalled = False\<rparr>,
         player = \<lparr>isPlaying = False, scheduledBuffers = []\<rparr>,
         playbackFormat = Some pcm16Mono16k,
         started = False\<rparr>,
      wire = [TaskResume ''ws://host/ws/audio'', TaskReceive,
              TaskSend (WsString ''audio.start''), TaskSend (WsString ''audio.stop'')],
      audioSession = \<lparr>categorySet = True, sessionActive = True\<rparr>,
      unity = \<lparr>visemeCalls = [], sentToUnity = []\<rparr>, console = []\<rparr>"
  by (simp add: processingClient_def streamingClient_value stopRecording_def recorderStop_def
      playbackStop_def playerStop_def sendJson_def audioStopPayload_def platform_simps Let_def)

lemma goodConversion_sent:
  "handleBuffer goodConversion (recorder streamingClient) =
     Some (SendBinaryCallback, [1, 0, 2, 0])"
  by (simp add: streamingClient_value handleBuffer_def goodConversion_def pcm16Mono16k_def)

section \<open>Samples and frames\<close>

lemma length_int16s: "length (int16s d) = length d div 2"
  by (induction d rule: int16s.induct) simp_all

lemma enqueuePcm_schedules:
  assumes "playbackFormat p = Some pcm16Mono16k" and "pcmBufferAvailable pf (length d div 2)"
  shows "enqueuePcm pf d p =
           p\<lparr>player := scheduleBuffer
                \<lparr>bufferFormat = pcm16Mono16k, frameCapacity = length d div 2,
                 frameLength = length d div 2, channel0 = int16s d\<rparr> (player p)\<rparr>"
  using assms
  by (simp add: enqueuePcm_def newPcmBuffer_def int16ChannelData_def pcm16Mono16k_def
      baseAddress_def assign_def Let_def length_int16s)

text \<open>
  Claim C10. For every byte buffer given to \<^verbatim>\<open>enqueuePcm\<close>, started or not, when the
  playback format is the 16-bit format of the class and the platform provides the
  buffer: one buffer is appended to the buffers scheduled on the player node; its frame
  length is the byte count divided by two, rounded down; its samples are the byte pairs
  of the data, so the last byte of an odd-sized buffer is in no sample and nothing is
  raised; an empty buffer gives a buffer of zero frames.
\<close>

theorem enqueuePcm_frame_count:
  assumes "playbackFormat p = Some pcm16Mono16k" and "pcmBufferAvailable pf (length d div 2)"
  shows "scheduledBuffers (player (enqueuePcm pf d p)) =
           scheduledBuffers (player p) @
             [\<lparr>bufferFormat = pcm16Mono16k, frameCapacity = length d div 2,
               frameLength = length d div 2, channel0 = int16s d\<rparr>]
         \<and> length (int16s d) = length d div 2"
  using assms by (simp add: enqueuePcm_schedules scheduleBuffer_def length_int16s)

theorem enqueuePcm_frame_count_witness:
  "playbackFormat (playback streamingClient) = Some pcm16Mono16k
   \<and> pcmBufferAvailable fixturePlatform (length [0, 1, 2 :: 8 word] div 2)
   \<and> started (playback streamingClient)
   \<and> scheduledBuffers (player (enqueuePcm fixturePlatform [0, 1, 2] (playback streamingClient))) =
       [\<lparr>bufferFormat = pcm16Mono16k, frameCapacity = 1, frameLength = 1, channel0 = [256]\<rparr>]
   \<and> scheduledBuffers (player (enqueuePcm fixturePlatform [] (playback streamingClient))) =
       [\<lparr>bufferFormat = pcm16Mono16k, frameCapacity = 0, frameLength = 0, channel0 = []\<rparr>]"
proof -
  have fmt: "playbackFormat (playback streamingClient) = Some pcm16Mono16k"
    by (simp add: streamingClient_value)
  have av: "pcmBufferAvailable fixturePlatform n" for n
    by (simp add: platform_simps)
  show ?thesis
    using enqueuePcm_frame_count [OF fmt av, of "[0, 1, 2]"]
      enqueuePcm_frame_count [OF fmt av, of "[]"] fmt av
    by (simp add: streamingClient_value)
qed

section \<open>Buffers that arrive after the playback stopped\<close>

lemma enqueuePcm_keeps_flags:
  "started (enqueuePcm pf d p) = started p \<and>
   isRunning (playbackEngine (enqueuePcm pf d p)) = isRunning (playbackEngine p) \<and>
   isPlaying (player (enqueuePcm pf d p)) = isPlaying (player p) \<and>
   playbackFormat (enqueuePcm pf d p) = playbackFormat p"
  by (simp add: enqueuePcm_def scheduleBuffer_def Let_def split: option.splits)

lemma enqueueAll_keeps_flags:
  "started (enqueueAll pf ds p) = started p \<and>
   isRunning (playbackEngine (enqueueAll pf ds p)) = isRunning (playbackEngine p) \<and>
   isPlaying (player (enqueueAll pf ds p)) = isPlaying (player p) \<and>
   playbackFormat (enqueueAll pf ds p) = playbackFormat p"
  by (induction ds arbitrary: p) (simp_all add: enqueuePcm_keeps_flags)

lemma playbackStart_keeps_queue:
  "scheduledBuffers (player (snd (playbackStart engineError p))) = scheduledBuffers (player p)"
  by (simp add: playbackStart_def split: option.splits)

lemma enqueueAll_frames:
  assumes "playbackFormat p = Some pcm16Mono16k"
    and "\<forall>d \<in> set ds. pcmBufferAvailable pf (length d div 2)"
  shows "map frameLength (scheduledBuffers (player (enqueueAll pf ds p))) =
           map frameLength (scheduledBuffers (player p)) @ map (\<lambda>d. length d div 2) ds"
  using assms
proof (induction ds arbitrary: p)
  case Nil
  then show ?case by simp
next
  case (Cons d ds)
  have fmt: "playbackFormat (enqueuePcm pf d p) = Some pcm16Mono16k"
    using Cons.prems(1) by (simp add: enqueuePcm_keeps_flags)
  have step: "map frameLength (scheduledBuffers (player (enqueuePcm pf d p))) =
                map frameLength (scheduledBuffers (player p)) @ [length d div 2]"
    using Cons.prems by (simp add: enqueuePcm_schedules scheduleBuffer_def)
  show ?case
    using Cons.IH [OF fmt] Cons.prems(2) step by simp
qed

text \<open>
  Claim C4, as the code has it. After \<^verbatim>\<open>stop()\<close>, any number of \<^verbatim>\<open>enqueuePcm\<close> calls
  returns normally and leaves the playback stopped: \<^verbatim>\<open>started\<close> is false, the engine does
  not run and the player node does not play. The calls are not without effect: when the
  platform provides the buffers, each one is scheduled on the player node, in the order of
  arrival, with its byte count halved as frame length. The next \<^verbatim>\<open>start()\<close> leaves them
  scheduled, and when its engine starts the player node plays.
\<close>

theorem enqueue_after_stop:
  "\<not> started (enqueueAll pf ds (playbackStop p)) \<and>
   \<not> isRunning (playbackEngine (enqueueAll pf ds (playbackStop p))) \<and>
   \<not> isPlaying (player (enqueueAll pf ds (playbackStop p))) \<and>
   (playbackFormat p = Some pcm16Mono16k \<and>
    (\<forall>d \<in> set ds. pcmBufferAvailable pf (length d div 2))
      \<longrightarrow> map frameLength (scheduledBuffers (player (enqueueAll pf ds (playbackStop p)))) =
            map (\<lambda>d. length d div 2) ds) \<and>
   scheduledBuffers (player (snd (playbackStart engineError
      (enqueueAll pf ds (playbackStop p))))) =
     scheduledBuffers (player (enqueueAll pf ds (playbackStop p))) \<and>
   isPlaying (player (snd (playbackStart None (enqueueAll pf ds (playbackStop p)))))"
proof -
  have stopped: "\<not> started (playbackStop p) \<and> \<not> isRunning (playbackEngine (playbackStop p))
      \<and> \<not> isPlaying (player (playbackStop p)) \<and> scheduledBuffers (player (playbackStop p)) = []
      \<and> playbackFormat (playbackStop p) = playbackFormat p"
    by (simp add: playbackStop_def playerStop_def)
  have late: "\<not> started (enqueueAll pf ds (playbackStop p))
      \<and> \<not> isRunning (playbackEngine (enqueueAll pf ds (playbackStop p)))
      \<and> \<not> isPlaying (player (enqueueAll pf ds (playbackStop p)))"
    using stopped by (simp add: enqueueAll_keeps_flags)
  have frames: "playbackFormat p = Some pcm16Mono16k \<and>
      (\<forall>d \<in> set ds. pcmBufferAvailable pf (length d div 2))
      \<longrightarrow> map frameLength (scheduledBuffers (player (enqueueAll pf ds (playbackStop p)))) =
            map (\<lambda>d. length d div 2) ds"
    using stopped enqueueAll_frames [of "playbackStop p" ds pf] by simp
  have restart: "isPlaying (player (snd (playbackStart None (enqueueAll pf ds (playbackStop p)))))"
    using late by (simp add: playbackStart_def)
  show ?thesis
    using late frames restart
      playbackStart_keeps_queue [of engineError "enqueueAll pf ds (playbackStop p)"]
    by simp
qed

theorem enqueue_after_stop_witness:
  "playbackFormat (playback streamingClient) = Some pcm16Mono16k
   \<and> pcmBufferAvailable fixturePlatform (length [0, 1, 2 :: 8 word] div 2)
   \<and> pcmBufferAvailable fixturePlatform (length [3, 4, 5, 6 :: 8 word] div 2)
   \<and> \<not> started (enqueueAll fixturePlatform [[0, 1, 2], [3, 4, 5, 6]]
                  (playbackStop (playback streamingClient)))
   \<and> map frameLength (scheduledBuffers (player (enqueueAll fixturePlatform [[0, 1, 2], [3, 4, 5, 6]]
                  (playbackStop (playback streamingClient))))) = [1, 2]"
proof -
  have fmt: "playbackFormat (playback streamingClient) = Some pcm16Mono16k"
    by (simp add: streamingClient_value)
  have av: "\<forall>d \<in> set [[0, 1, 2], [3, 4, 5, 6 :: 8 word]].
              pcmBufferAvailable fixturePlatform (length d div 2)"
    by (simp add: platform_simps)
  show ?thesis
    using enqueue_after_stop [of fixturePlatform "[[0, 1, 2], [3, 4, 5, 6]]"
        "playback streamingClient"] fmt av
    by simp
qed

text \<open>
  Claim C4, as stated, fails. A \<^verbatim>\<open>tts.audio\<close> chunk of three bytes that arrives after
  \<^verbatim>\<open>stopRecording\<close> changes the playback: its one frame is scheduled on the player node.
  The next \<^verbatim>\<open>startRecording\<close> starts the player with that frame still scheduled.
\<close>

theorem enqueue_after_stop_counterexample:
  "\<not> started (playback processingClient)
   \<and> handleMessage fixturePlatform (WsData [6]) processingClient \<noteq> processingClient
   \<and> scheduledBuffers (player (playback
        (handleMessage fixturePlatform (WsData [6]) processingClient))) =
       [\<lparr>bufferFormat = pcm16Mono16k, frameCapacity = 1, frameLength = 1, channel0 = [256]\<rparr>]
   \<and> isPlaying (player (playback
        (startRecording fixturePlatform fixtureEnv ''p1'' None
           (handleMessage fixturePlatform (WsData [6]) processingClient))))
   \<and> scheduledBuffers (player (playback
        (startRecording fixturePlatform fixtureEnv ''p1'' None
           (handleMessage fixturePlatform (WsData [6]) processingClient)))) =
       [\<lparr>bufferFormat = pcm16Mono16k, frameCapacity = 1, frameLength = 1, channel0 = [256]\<rparr>]"
proof -
  have fmt: "playbackFormat (playback processingClient) = Some pcm16Mono16k"
    by (simp add: processingClient_value)
  have av: "pcmBufferAvailable fixturePlatform (length [0, 1, 2 :: 8 word] div 2)"
    by (simp add: platform_simps)
  have late: "handleMessage fixturePlatform (WsData [6]) processingClient =
              processingClient\<lparr>playback :=
                enqueuePcm fixturePlatform [0, 1, 2] (playback processingClient)\<rparr>"
    by (simp add: handleMessage_def handleJson_def platform_simps)
  have queued: "enqueuePcm fixturePlatform [0, 1, 2] (playback processingClient) =
                \<lparr>playbackEngine = \<lparr>isRunning = False, inputTapInstalled = False\<rparr>,
                 player = \<lparr>isPlaying = False, scheduledBuffers =
                   [\<lparr>bufferFormat = pcm16Mono16k, frameCapacity = 1, frameLength = 1,
                     channel0 = [256]\<rparr>]\<rparr>,
                 playbackFormat = Some pcm16Mono16k, started = False\<rparr>"
    unfolding enqueuePcm_schedules [OF fmt av]
    by (simp add: processingClient_value scheduleBuffer_def)
  show ?thesis
    unfolding late queued
    by (simp add: processingClient_value startRecording_def configureAudioSession_def
        sendJson_def audioStartPayload_def playbackStart_def recorderStart_def fixtureEnv_def
        platform_simps Let_def)
qed

section \<open>Inbound messages\<close>

text \<open>The three guards of \<^verbatim>\<open>handleJson\<close>, read through \<open>taggedPayload\<close>.\<close>

lemma handleJson_untagged:
  assumes "taggedPayload pf d = None"
  shows "handleJson pf d s = s"
proof (cases "jsonObject pf d")
  case None
  then show ?thesis by (simp add: handleJson_def)
next
  case j: (Some j)
  show ?thesis
  proof (cases "asDictionary j")
    case None
    with j show ?thesis by (simp add: handleJson_def)
  next
    case p: (Some payload)
    show ?thesis
    proof (cases "stringAt payload ''type''")
      case None
      with j p show ?thesis by (simp add: handleJson_def)
    next
      case (Some ty)
      with j p assms show ?thesis by (simp add: taggedPayload_def)
    qed
  qed
qed

lemma taggedPayload_SomeD:
  assumes "taggedPayload pf d = Some (ty, payload)"
  shows "\<exists>j. jsonObject pf d = Some j \<and> asDictionary j = Some payload
           \<and> stringAt payload ''type'' = Some ty"
  using assms by (auto simp: taggedPayload_def split: option.splits)

lemma handleJson_delta:
  assumes "taggedPayload pf d = Some (''assistant.delta'', payload)"
  shows "handleJson pf d s =
           s\<lparr>assistantText := assistantText s @
                (case stringAt payload ''text'' of Some t \<Rightarrow> t | None \<Rightarrow> [])\<rparr>"
  using taggedPayload_SomeD [OF assms] by (auto simp: handleJson_def)

lemma handleJson_other_text:
  assumes "taggedPayload pf d = Some (ty, payload)" and "ty \<noteq> ''assistant.delta''"
  shows "assistantText (handleJson pf d s) = assistantText s"
  using taggedPayload_SomeD [OF assms(1)] assms(2)
  by (auto simp: handleJson_def split: option.split)

lemma handleJson_assistantText:
  "assistantText (handleJson pf d s) =
     assistantText s @
       (case taggedPayload pf d of
          None \<Rightarrow> []
        | Some (ty, payload) \<Rightarrow>
            if ty = ''assistant.delta''
            then (case stringAt payload ''text'' of Some t \<Rightarrow> t | None \<Rightarrow> [])
            else [])"
proof (cases "taggedPayload pf d")
  case None
  then show ?thesis by (simp add: handleJson_untagged)
next
  case (Some tp)
  obtain ty payload where tp: "tp = (ty, payload)" by (cases tp)
  show ?thesis
  proof (cases "ty = ''assistant.delta''")
    case True
    with Some tp show ?thesis by (simp add: handleJson_delta)
  next
    case False
    with Some tp show ?thesis by (simp add: handleJson_other_text)
  qed
qed

lemma handleMessage_assistantText:
  "assistantText (handleMessage pf m s) = assistantText s @ deltaText pf m"
  by (cases m)
    (simp_all add: handleMessage_def deltaText_def messageBytes_def handleJson_assistantText
      split: option.splits)

lemma listen_assistantText: "assistantText (listen s) = assistantText s"
  by (simp add: listen_def split: option.splits)

lemma receiveAll_assistantText:
  "assistantText (receiveAll pf ms s) = assistantText s @ concat (map (deltaText pf) ms)"
proof (induction ms arbitrary: s)
  case Nil
  show ?case by simp
next
  case (Cons m ms)
  have "assistantText (receiveCompletion pf (Success m) s) = assistantText s @ deltaText pf m"
    by (simp add: receiveCompletion_def listen_assistantText handleMessage_assistantText)
  then show ?case
    using Cons.IH [of "receiveCompletion pf (Success m) s"] by simp
qed

lemma startRecording_resets_text:
  assumes "task s \<noteq> None"
  shows "assistantText (startRecording pf env projectId avatarId s) = []"
  using assms
  by (auto simp: startRecording_def configureAudioSession_def sendJson_def Let_def
      split: option.splits prod.splits)

text \<open>
  Claim C9. After a \<^verbatim>\<open>startRecording\<close> that found a socket task, whatever messages arrive
  and in whatever order, the assistant text is the concatenation, in arrival order, of the
  \<^verbatim>\<open>text\<close> fields of the \<^verbatim>\<open>assistant.delta\<close> messages among them: every other message
  contributes the empty string, and so does a delta without a \<^verbatim>\<open>text\<close> string.
\<close>

theorem assistant_text_is_concatenation:
  assumes "task s \<noteq> None"
  shows "assistantText (receiveAll pf ms (startRecording pf env projectId avatarId s)) =
           concat (map (deltaText pf) ms)"
  by (simp add: receiveAll_assistantText startRecording_resets_text [OF assms])

theorem assistant_text_is_concatenation_witness:
  "task connectedClient \<noteq> None
   \<and> map (deltaText fixturePlatform) [WsData [2], WsData [1], WsData [3]] = [''Hel'', [], ''lo'']
   \<and> assistantText (receiveAll fixturePlatform [WsData [2], WsData [1], WsData [3]]
        (startRecording fixturePlatform fixtureEnv ''p1'' None connectedClient)) = ''Hello''"
proof -
  have t: "task connectedClient \<noteq> None"
    by (simp add: connectedClient_value)
  have texts: "map (deltaText fixturePlatform) [WsData [2], WsData [1], WsData [3]] =
                 [''Hel'', [], ''lo'']"
    by (simp add: deltaText_def messageBytes_def taggedPayload_def platform_simps)
  show ?thesis
    using assistant_text_is_concatenation [OF t, of fixturePlatform
        "[WsData [2], WsData [1], WsData [3]]" fixtureEnv "''p1''" None] t texts
    by simp
qed

text \<open>
  Claim C8, as the code has it. A message whose bytes do not decode as JSON, or decode to
  something that is not a dictionary, or to a dictionary without a string under \<^verbatim>\<open>type\<close>,
  is dropped without a trace: the client is left exactly as it was, log included, and the
  receive loop asks for the next message.
\<close>

theorem malformed_message_dropped:
  assumes "malformed pf m"
  shows "handleMessage pf m s = s \<and> receiveCompletion pf (Success m) s = listen s"
proof -
  have "handleMessage pf m s = s"
    using assms
    by (cases m)
      (simp_all add: malformed_def handleMessage_def messageBytes_def handleJson_untagged
        split: option.splits)
  then show ?thesis
    by (simp add: receiveCompletion_def)
qed

theorem malformed_message_dropped_witness:
  "malformed fixturePlatform (WsData [4])
   \<and> malformed fixturePlatform (WsData [5])
   \<and> handleMessage fixturePlatform (WsData [4]) streamingClient = streamingClient
   \<and> handleMessage fixturePlatform (WsData [5]) streamingClient = streamingClient"
proof -
  have a: "malformed fixturePlatform (WsData [4])"
    by (simp add: malformed_def messageBytes_def taggedPayload_def platform_simps)
  have b: "malformed fixturePlatform (WsData [5])"
    by (simp add: malformed_def messageBytes_def taggedPayload_def platform_simps)
  show ?thesis
    using malformed_message_dropped [OF a, of streamingClient]
      malformed_message_dropped [OF b, of streamingClient] a b
    by simp
qed

text \<open>
  Claim C8, as stated, fails: a text message that is not JSON is dropped, and no warning
  is written to the log.
\<close>

theorem malformed_message_counterexample:
  "malformed fixturePlatform (WsString ''not json'')
   \<and> console streamingClient = []
   \<and> console (handleMessage fixturePlatform (WsString ''not json'') streamingClient) = []"
proof -
  have m: "malformed fixturePlatform (WsString ''not json'')"
    by (simp add: malformed_def messageBytes_def taggedPayload_def platform_simps)
  have "handleMessage fixturePlatform (WsString ''not json'') streamingClient = streamingClient"
    by (simp add: handleMessage_def handleJson_def platform_simps)
  then show ?thesis
    using m by (simp add: streamingClient_value)
qed

text \<open>
  Claim C2, as the code has it. A \<^verbatim>\<open>viseme\<close> message whose \<^verbatim>\<open>value\<close> casts to \<^verbatim>\<open>Double\<close>
  stores that number in \<^verbatim>\<open>visemeValue\<close> as received, whatever its size, and calls
  \<^verbatim>\<open>updateViseme\<close> once, with the same number. The call returns normally and sends nothing
  to the renderer. Nothing else in the client changes. When the \<^verbatim>\<open>value\<close> is missing or
  does not cast, the message does nothing.
\<close>

theorem viseme_stored_unclamped:
  assumes "taggedPayload pf d = Some (''viseme'', payload)"
  shows "handleJson pf d s =
           (case doubleAt pf payload ''value'' of
              None \<Rightarrow> s
            | Some v \<Rightarrow>
                s\<lparr>visemeValue := v,
                  unity := (unity s)\<lparr>visemeCalls := visemeCalls (unity s) @ [v]\<rparr>\<rparr>)
         \<and> sentToUnity (unity (handleJson pf d s)) = sentToUnity (unity s)
         \<and> visemeCalls (updateViseme w b) = visemeCalls b @ [w]
         \<and> sentToUnity (updateViseme w b) = sentToUnity b"
proof -
  obtain j where j: "jsonObject pf d = Some j" "asDictionary j = Some payload"
      "stringAt payload ''type'' = Some ''viseme''"
    using taggedPayload_SomeD [OF assms] by blast
  show ?thesis
  proof (cases "doubleAt pf payload ''value''")
    case None
    with j show ?thesis by (simp add: handleJson_def updateViseme_def)
  next
    case (Some x)
    with j show ?thesis by (simp add: handleJson_def updateViseme_def)
  qed
qed

theorem viseme_stored_unclamped_witness:
  "taggedPayload fixturePlatform [1] =
     Some (''viseme'', [(''type'', JString ''viseme''), (''value'', JNumber (14 / 10))])
   \<and> handleJson fixturePlatform [1] connectedClient =
       connectedClient\<lparr>visemeValue := 14 / 10,
         unity := \<lparr>visemeCalls = [14 / 10], sentToUnity = []\<rparr>\<rparr>
   \<and> taggedPayload fixturePlatform [7] =
     Some (''viseme'', [(''type'', JString ''viseme''), (''value'', JString ''wide'')])
   \<and> handleJson fixturePlatform [7] connectedClient = connectedClient"
proof -
  have t: "taggedPayload fixturePlatform [1] =
             Some (''viseme'', [(''type'', JString ''viseme''), (''value'', JNumber (14 / 10))])"
    by (simp add: taggedPayload_def platform_simps)
  have u: "taggedPayload fixturePlatform [7] =
             Some (''viseme'', [(''type'', JString ''viseme''), (''value'', JString ''wide'')])"
    by (simp add: taggedPayload_def platform_simps)
  have c: "unity connectedClient = \<lparr>visemeCalls = [], sentToUnity = []\<rparr>"
    by (simp add: connectedClient_value)
  show ?thesis
    using viseme_stored_unclamped [OF t, of connectedClient]
      viseme_stored_unclamped [OF u, of connectedClient] t u c
    by (simp add: doubleAt_def fixturePlatform_def)
qed

text \<open>
  Claim C2, as stated, fails: on \<^verbatim>\<open>viseme{value: 1.4}\<close> the client publishes 1.4, not 1.0,
  \<^verbatim>\<open>updateViseme\<close> is called with 1.4, not 1.0, and the renderer receives nothing.
\<close>

theorem viseme_counterexample:
  "visemeValue (handleMessage fixturePlatform (WsData [1]) connectedClient) = 14 / 10
   \<and> visemeValue (handleMessage fixturePlatform (WsData [1]) connectedClient) \<noteq> 1
   \<and> visemeCalls (unity (handleMessage fixturePlatform (WsData [1]) connectedClient)) = [14 / 10]
   \<and> visemeCalls (unity (handleMessage fixturePlatform (WsData [1]) connectedClient)) \<noteq> [1]
   \<and> sentToUnity (unity (handleMessage fixturePlatform (WsData [1]) connectedClient)) = []"
  by (simp add: handleMessage_def handleJson_def updateViseme_def platform_simps
      connectedClient_value)

section \<open>Transport failures\<close>




section \<open>Connecting\<close>

lemma disconnect_fields:
  "task (disconnect pf s) = None \<and> \<not> isConnected (disconnect pf s)
   \<and> status (disconnect pf s) = ''Disconnected''"
  by (simp add: disconnect_def Let_def)




section \<open>Starting to record\<close>









section \<open>Conversion failures\<close>

lemma handleBuffer_failed:
  assumes "converter r = None \<or> \<not> outputAllocated cv \<or> outStatus cv = StatusError
           \<or> outError cv \<noteq> None"
  shows "handleBuffer cv r = None"
  using assms by (auto simp: handleBuffer_def split: option.splits)

text \<open>
  Claim C6, as the code has it. When the recorder has no converter, or the output buffer
  cannot be allocated, or the converter returns the error status or an error,
  \<^verbatim>\<open>handleBuffer\<close> returns without calling the callback: the buffer is dropped, the client
  is left exactly as it was (the status too: nothing is reported), and the buffers that
  follow are handled as if the failed one had never been captured.
\<close>

theorem format_failure_dropped:
  assumes "converter (recorder s) = None \<or> \<not> outputAllocated cv \<or> outStatus cv = StatusError
           \<or> outError cv \<noteq> None"
  shows "handleBuffer cv (recorder s) = None
         \<and> tapBlock cv s = s
         \<and> tapAll (cv # cvs) s = tapAll cvs s"
  by (simp add: handleBuffer_failed [OF assms] tapBlock_def)

theorem format_failure_dropped_witness:
  "outStatus failedConversion = StatusError
   \<and> tapBlock failedConversion streamingClient = streamingClient
   \<and> wire (tapAll [failedConversion, goodConversion] streamingClient) =
       wire streamingClient @ [TaskSend (WsData [1, 0, 2, 0])]"
proof -
  have f: "converter (recorder streamingClient) = None \<or> \<not> outputAllocated failedConversion
           \<or> outStatus failedConversion = StatusError \<or> outError failedConversion \<noteq> None"
    by (simp add: failedConversion_def)
  have st: "outStatus failedConversion = StatusError"
    by (simp add: failedConversion_def)
  have good: "tapBlock goodConversion streamingClient = sendBinary [1, 0, 2, 0] streamingClient"
    unfolding tapBlock_def goodConversion_sent
    by (simp add: streamingClient_value)
  have w: "wire (sendBinary [1, 0, 2, 0] streamingClient) =
             wire streamingClient @ [TaskSend (WsData [1, 0, 2, 0])]"
    by (simp add: sendBinary_def streamingClient_value)
  show ?thesis
    using format_failure_dropped [OF f, of "[goodConversion]"] st good w
    by simp
qed

text \<open>
  Claim C6, as stated, fails: a buffer the converter rejects leaves the recording client
  unchanged, with status \<^verbatim>\<open>Recording\<close> and an empty log. No error is reported upward.
\<close>

theorem format_failure_counterexample:
  "outError failedConversion = Some ''bad format''
   \<and> tapBlock failedConversion streamingClient = streamingClient
   \<and> status (tapBlock failedConversion streamingClient) = ''Recording''
   \<and> console (tapBlock failedConversion streamingClient) = []"
proof -
  have "handleBuffer failedConversion (recorder streamingClient) = None"
    by (simp add: handleBuffer_def failedConversion_def streamingClient_value)
  then have "tapBlock failedConversion streamingClient = streamingClient"
    by (simp add: tapBlock_def)
  then show ?thesis
    by (simp add: failedConversion_def streamingClient_value)
qed

section \<open>Disconnecting\<close>

text \<open>A second \<^verbatim>\<open>disconnect\<close> changes nothing.\<close>

lemma disconnect_idempotent: "disconnect pf (disconnect pf s) = disconnect pf s"
  by (simp add: disconnect_def stopRecording_def Let_def)

lemma failedStartClient_value:
  "failedStartClient =
     \<lparr>status = ''Audio start failed: input busy'', transcript = [], assistantText = [],
      isConnected = True, isRecording = False, visemeValue = 0,
      task = Some (WebSocketTask ''ws://host/ws/audio''),
      recorder =
        \<lparr>recorderEngine = \<lparr>isRunning = False, inputTapInstalled = True\<rparr>,
         converter = Some (AudioConverter float32Mono48k pcm16Mono16k),
         onPcmData = Some SendBinaryCallback,
         targetFormat = Some pcm16Mono16k\<rparr>,
      playback =
        \<lparr>playbackEngine = \<lparr>isRunning = True, inputTapInstalled = False\<rparr>,
         player = \<lparr>isPlaying = True, scheduledBuffers = []\<rparr>,
         playbackFormat = Some pcm16Mono16k,
         started = True\<rparr>,
      wire = [TaskResume ''ws://host/ws/audio'', TaskReceive,
              TaskSend (WsString ''audio.start'')],
      audioSession = \<lparr>categorySet = True, sessionActive = True\<rparr>,
      unity = \<lparr>visemeCalls = [], sentToUnity = []\<rparr>, console = []\<rparr>"
  by (simp add: failedStartClient_def connectedClient_value startRecording_def
      configureAudioSession_def sendJson_def audioStartPayload_def playbackStart_def
      recorderStart_def newAudioPlayback_def newAudioRecorder_def microphoneBusyEnv_def
      platform_simps Let_def)

text \<open>
  Claim C7 on the client whose \<^verbatim>\<open>startRecording\<close> failed after the playback had started.
  \<^verbatim>\<open>disconnect\<close> cancels the task and marks the client disconnected, but \<^verbatim>\<open>stopRecording\<close>
  returns at its guard because \<^verbatim>\<open>isRecording\<close> is false: the playback stays started, its
  engine runs, the player node plays, and the tap and the callback of the recorder stay
  installed.
\<close>

theorem disconnect_after_failed_start:
  "started (playback failedStartClient)
   \<and> \<not> isRecording failedStartClient
   \<and> task (disconnect fixturePlatform failedStartClient) = None
   \<and> status (disconnect fixturePlatform failedStartClient) = ''Disconnected''
   \<and> wire (disconnect fixturePlatform failedStartClient) = wire failedStartClient @ [TaskCancel]
   \<and> started (playback (disconnect fixturePlatform failedStartClient))
   \<and> isRunning (playbackEngine (playback (disconnect fixturePlatform failedStartClient)))
   \<and> isPlaying (player (playback (disconnect fixturePlatform failedStartClient)))
   \<and> inputTapInstalled (recorderEngine (recorder (disconnect fixturePlatform failedStartClient)))
   \<and> onPcmData (recorder (disconnect fixturePlatform failedStartClient)) = Some SendBinaryCallback
   \<and> disconnect fixturePlatform (disconnect fixturePlatform failedStartClient) =
       disconnect fixturePlatform failedStartClient"
proof -
  have d: "disconnect fixturePlatform failedStartClient =
             failedStartClient\<lparr>wire := wire failedStartClient @ [TaskCancel], task := None,
               isConnected := False, status := ''Disconnected''\<rparr>"
    by (simp add: disconnect_def stopRecording_def failedStartClient_value Let_def)
  show ?thesis
    unfolding disconnect_idempotent
    unfolding d
    by (simp add: failedStartClient_value)
qed

end
